theory Spec2Isabelle
  imports Complex_Main "HOL-Library.AList" "HOL-Library.Multiset"
begin

section \<open>FinancialWellnessHub: storage layer and advice generator\<close>

text \<open>
  The development embeds \<^verbatim>\<open>server/storage.ts\<close> (class \<^verbatim>\<open>DatabaseStorage\<close>) and the
  mood detection of \<^verbatim>\<open>server/openai.ts\<close> (\<^verbatim>\<open>generateFinancialAdvice\<close>), over the tables
  declared in \<^verbatim>\<open>shared/schema.ts\<close>.

  Conventions of the embedding:
  \<^item> a table is the list of its rows, in insertion order; \<^verbatim>\<open>select ... where\<close> is
    \<open>filter\<close>, \<^verbatim>\<open>update ... set ... where\<close> is \<open>map\<close>, \<^verbatim>\<open>insert ... returning\<close>
    appends one row and hands it back;
  \<^item> \<^verbatim>\<open>const [x] = rows\<close> is \<open>firstRow rows\<close>: \<open>None\<close> stands for \<^verbatim>\<open>undefined\<close>;
  \<^item> a \<^verbatim>\<open>numeric\<close> column holds an exact decimal, a \<open>rat\<close>. The JavaScript
    \<^verbatim>\<open>parseFloat(v.toString())\<close> and \<^verbatim>\<open>n.toString()\<close> conversions are read as the identity
    and \<^verbatim>\<open>+\<close>, \<^verbatim>\<open>-\<close>, \<^verbatim>\<open><\<close>, \<^verbatim>\<open>>=\<close> as the exact operations: binary
    floating-point rounding is outside this model;
  \<^item> a \<^verbatim>\<open>serial\<close> key and a \<^verbatim>\<open>number\<close> identifier are an \<open>int\<close>; a \<^verbatim>\<open>timestamp\<close> is an
    \<open>int\<close> (milliseconds, as \<^verbatim>\<open>Date.getTime()\<close> gives); \<^verbatim>\<open>defaultNow()\<close> takes the time
    \<open>now\<close> that the operation is given;
  \<^item> \<^verbatim>\<open>throw new Error(...)\<close> is \<open>Inl\<close> of an \<open>error\<close>; \<^verbatim>\<open>db.transaction\<close> commits
    the state its callback returns and keeps the old state when the callback throws.
\<close>

subsection \<open>Tables (shared/schema.ts)\<close>

type_synonym money = rat

record bankAccount =
  a_id :: int
  a_userId :: int
  a_name :: string
  a_accountNumber :: string
  a_balance :: money
  a_type :: string
  a_createdAt :: int

record transaction =
  t_id :: int
  t_accountId :: int
  t_amount :: money
  t_description :: string
  t_category :: "string option"
  t_merchant :: "string option"
  t_date :: int
  t_type :: string

record savingGoal =
  g_id :: int
  g_userId :: int
  g_name :: string
  g_targetAmount :: money
  g_currentAmount :: money
  g_deadline :: "int option"
  g_completed :: bool
  g_createdAt :: int

text \<open>The \<^verbatim>\<open>mood\<close> column is text holding one of
  \<^verbatim>\<open>'sad', 'neutral', 'happy', 'very-happy'\<close> (the comment of the column in the schema).\<close>

datatype mood = Sad | Neutral | Happy | VeryHappy

record journalEntry =
  j_id :: int
  j_userId :: int
  j_entry :: string
  j_mood :: mood
  j_date :: int

record aiAdvice =
  v_id :: int
  v_userId :: int
  v_query :: string
  v_response :: string
  v_date :: int


record insertSavingGoal =
  ig_userId :: int
  ig_name :: string
  ig_targetAmount :: money
  ig_deadline :: "int option"


record db =
  bankAccounts :: "bankAccount list"
  transactions :: "transaction list"
  savingGoals :: "savingGoal list"
  journalEntries :: "journalEntry list"
  aiAdvices :: "aiAdvice list"
  transactionsSeq :: int
  savingGoalsSeq :: int


subsection \<open>Query primitives\<close>





text \<open>\<^verbatim>\<open>ORDER BY date DESC\<close> and the comparator \<^verbatim>\<open>(a, b) => b.date - a.date\<close> of
  \<^verbatim>\<open>Array.prototype.sort\<close>: a stable sort on the negated date.\<close>

definition orderByDesc :: "('a \<Rightarrow> int) \<Rightarrow> 'a list \<Rightarrow> 'a list" where
  "orderByDesc date rows = sort_key (\<lambda>r. - date r) rows"

subsection \<open>Bank accounts\<close>



subsection \<open>Transactions\<close>








subsection \<open>Saving goals\<close>


definition createSavingGoal :: "int \<Rightarrow> insertSavingGoal \<Rightarrow> db \<Rightarrow> savingGoal \<times> db" where
  "createSavingGoal now insertGoal d =
     (let goal = \<lparr> g_id = savingGoalsSeq d,
                   g_userId = ig_userId insertGoal,
                   g_name = ig_name insertGoal,
                   g_targetAmount = ig_targetAmount insertGoal,
                   g_currentAmount = 0,
                   g_deadline = ig_deadline insertGoal,
                   g_completed = False,
                   g_createdAt = now \<rparr>
      in (goal, d\<lparr> savingGoals := savingGoals d @ [goal],
                   savingGoalsSeq := savingGoalsSeq d + 1 \<rparr>))"






subsection \<open>Journal entries and advice records\<close>

definition getJournalEntriesByUserId :: "db \<Rightarrow> int \<Rightarrow> journalEntry list" where
  "getJournalEntriesByUserId d userId =
     orderByDesc j_date (filter (\<lambda>e. j_userId e = userId) (journalEntries d))"


subsection \<open>Advice generator: the primary mood (server/openai.ts)\<close>

text \<open>\<^verbatim>\<open>moodCounts\<close> is a \<^verbatim>\<open>Record<string, number>\<close> whose keys are mood names, none of them an
  array index, so \<^verbatim>\<open>Object.entries\<close> lists it in the order the keys were first written:
  an association list that \<open>AList.update\<close> changes in place or extends at the end.\<close>

definition countMood :: "mood \<Rightarrow> (mood \<times> nat) list \<Rightarrow> (mood \<times> nat) list" where
  "countMood m moodCounts =
     AList.update m ((case map_of moodCounts m of None \<Rightarrow> 0 | Some c \<Rightarrow> c) + 1) moodCounts"

definition pickMax :: "mood \<times> nat \<Rightarrow> nat \<times> mood \<Rightarrow> nat \<times> mood" where
  "pickMax entry st =
     (case entry of (m, cnt) \<Rightarrow>
        (case st of (maxCount, primaryMood) \<Rightarrow>
           if cnt > maxCount then (cnt, m) else (maxCount, primaryMood)))"

definition primaryMood :: "journalEntry list \<Rightarrow> mood" where
  "primaryMood entries =
     (let recentJournalEntries = map (\<lambda>entry. (j_mood entry, j_date entry)) (take 5 entries)
      in if length recentJournalEntries > 0
         then (let moodCounts = fold (\<lambda>entry. countMood (fst entry)) recentJournalEntries []
               in snd (fold pickMax moodCounts (0, Neutral)))
         else Neutral)"

text \<open>The route \<^verbatim>\<open>POST /api/ai/advice\<close> hands the generator
  \<^verbatim>\<open>storage.getJournalEntriesByUserId(user.id)\<close>.\<close>

definition advicePrimaryMood :: "db \<Rightarrow> int \<Rightarrow> mood" where
  "advicePrimaryMood d userId = primaryMood (getJournalEntriesByUserId d userId)"

text \<open>The specification's reading of the dominant mood: the first mood, in the order of
  the list, that no mood of the list outnumbers.\<close>

definition modeFirst :: "'a list \<Rightarrow> 'a option" where
  "modeFirst ms = find (\<lambda>m. \<forall>m' \<in> set ms. count_list ms m' \<le> count_list ms m) ms"

text \<open>The keys of \<^verbatim>\<open>moodCounts\<close> in the order they were first written.\<close>

definition firstOcc :: "'a list \<Rightarrow> 'a list" where
  "firstOcc ms = rev (remdups (rev ms))"

subsection \<open>Scenario data\<close>







text \<open>A journal: user 7 wrote seven entries (the five newest are happy, sad, sad, happy,
  neutral, newest first; the two oldest are sad), user 8 wrote one, user 9 none.\<close>

definition journalNote :: "int \<Rightarrow> int \<Rightarrow> mood \<Rightarrow> int \<Rightarrow> journalEntry" where
  "journalNote i u m t = \<lparr> j_id = i, j_userId = u, j_entry = ''note'', j_mood = m, j_date = t \<rparr>"

definition journal_db :: db where
  "journal_db =
     \<lparr> bankAccounts = [], transactions = [], savingGoals = [],
       journalEntries =
         [journalNote 1 7 Sad 10, journalNote 2 7 Sad 20, journalNote 3 8 VeryHappy 25, journalNote 4 7 Neutral 30,
          journalNote 5 7 Happy 40, journalNote 6 7 Sad 50, journalNote 7 7 Sad 60, journalNote 8 7 Happy 70],
       aiAdvices = [], transactionsSeq = 1, savingGoalsSeq = 1 \<rparr>"

section \<open>Properties\<close>

subsection \<open>Rows and updates\<close>







subsection \<open>Transfers\<close>







subsection \<open>Single-sided transactions\<close>







subsection \<open>Goal funding\<close>




subsection \<open>Sequences of deposits\<close>

text \<open>A new goal starts at 0 with the flag unset, and every deposit recomputes the flag
  from the amounts: a stored flag never claims more than the amounts show.\<close>

lemma createSavingGoal_fresh:
  "g_currentAmount (fst (createSavingGoal now insertGoal d)) = 0
   \<and> \<not> g_completed (fst (createSavingGoal now insertGoal d))"
  by (simp add: createSavingGoal_def Let_def)






subsection \<open>Read helpers\<close>

lemma orderByDesc_sorted:
  "sorted_wrt (\<lambda>a b. date b \<le> date a) (orderByDesc date rows)"
proof -
  have "sorted (map (\<lambda>r. - date r) (sort_key (\<lambda>r. - date r) rows))"
    by (rule sorted_sort_key)
  then show ?thesis
    by (simp add: orderByDesc_def sorted_map)
qed

lemma mset_orderByDesc: "mset (orderByDesc date rows) = mset rows"
  by (simp add: orderByDesc_def)


subsection \<open>The primary mood\<close>

lemma firstOcc_snoc:
  "firstOcc (ms @ [m]) = (if m \<in> set ms then firstOcc ms else firstOcc ms @ [m])"
  by (simp add: firstOcc_def)

lemma set_firstOcc: "set (firstOcc ms) = set ms"
  by (simp add: firstOcc_def)

lemma distinct_firstOcc: "distinct (firstOcc ms)"
  by (simp add: firstOcc_def)

lemma find_snoc:
  "find P (xs @ [x]) = (case find P xs of None \<Rightarrow> (if P x then Some x else None) | Some y \<Rightarrow> Some y)"
  by (induction xs) simp_all

lemma find_firstOcc: "find P (firstOcc ms) = find P ms"
proof (induction ms rule: rev_induct)
  case Nil
  then show ?case by (simp add: firstOcc_def)
next
  case (snoc m ms)
  show ?case
  proof (cases "m \<in> set ms")
    case True
    then have "find P ms = None \<Longrightarrow> \<not> P m"
      by (auto simp: find_None_iff)
    with True snoc show ?thesis
      by (auto simp: firstOcc_snoc find_snoc split: option.splits)
  next
    case False
    with snoc show ?thesis
      by (simp add: firstOcc_snoc find_snoc)
  qed
qed

lemma update_counts:
  assumes "distinct ks"
  shows "AList.update m v (map (\<lambda>k. (k, f k)) ks)
         = map (\<lambda>k. (k, (f(m := v)) k)) (if m \<in> set ks then ks else ks @ [m])"
  using assms by (induction ks) auto

lemma map_of_counts:
  "map_of (map (\<lambda>k. (k, f k)) ks) m = (if m \<in> set ks then Some (f m) else None)"
  by (induction ks) auto

lemma moodCounts_eq:
  "fold countMood ms [] = map (\<lambda>k. (k, count_list ms k)) (firstOcc ms)"
proof (induction ms rule: rev_induct)
  case Nil
  then show ?case by (simp add: firstOcc_def)
next
  case (snoc m ms)
  have c: "(case map_of (map (\<lambda>k. (k, count_list ms k)) (firstOcc ms)) m of None \<Rightarrow> 0 | Some c \<Rightarrow> c)
           = count_list ms m"
    by (simp add: map_of_counts set_firstOcc)
  have f: "(count_list ms)(m := count_list ms m + 1) = count_list (ms @ [m])"
    by (rule ext) simp
  have "fold countMood (ms @ [m]) [] = countMood m (map (\<lambda>k. (k, count_list ms k)) (firstOcc ms))"
    by (simp add: snoc)
  also have "\<dots> = AList.update m (count_list ms m + 1) (map (\<lambda>k. (k, count_list ms k)) (firstOcc ms))"
    unfolding countMood_def c ..
  also have "\<dots> = map (\<lambda>k. (k, count_list (ms @ [m]) k)) (firstOcc (ms @ [m]))"
    unfolding update_counts [OF distinct_firstOcc] f
    by (simp add: set_firstOcc firstOcc_snoc)
  finally show ?case .
qed

lemma pickMax_pair:
  "pickMax (m, c) (mx, pm) = (if mx < c then (c, m) else (mx, pm))"
  by (simp add: pickMax_def)

lemma count_list_pos: "x \<in> set xs \<Longrightarrow> 0 < count_list xs x"
  using count_list_0_iff [of xs x] by simp

lemma ex_greatest:
  fixes f :: "'a \<Rightarrow> nat"
  assumes "xs \<noteq> []"
  shows "\<exists>x \<in> set xs. \<forall>y \<in> set xs. f y \<le> f x"
proof -
  have "Max (f ` set xs) \<in> f ` set xs"
    using assms by (intro Max_in) auto
  then obtain x where "x \<in> set xs" "f x = Max (f ` set xs)" by auto
  then show ?thesis by (metis List.finite_set Max_ge finite_imageI imageI)
qed

lemma pickMax_fold:
  "fold pickMax (map (\<lambda>k. (k, f k)) ks) (mx, pm)
   = (case find (\<lambda>k. mx < f k \<and> (\<forall>k' \<in> set ks. f k' \<le> f k)) ks of
        None \<Rightarrow> (mx, pm)
      | Some k \<Rightarrow> (f k, k))"
proof (induction ks arbitrary: mx pm)
  case Nil
  then show ?case by simp
next
  case (Cons k rest)
  show ?case
  proof (cases "mx < f k")
    case False
    have "find (\<lambda>x. mx < f x \<and> (\<forall>k' \<in> set (k # rest). f k' \<le> f x)) rest
          = find (\<lambda>x. mx < f x \<and> (\<forall>k' \<in> set rest. f k' \<le> f x)) rest"
      using False by (intro find_cong) auto
    with False show ?thesis
      by (simp add: pickMax_pair Cons.IH)
  next
    case True
    show ?thesis
    proof (cases "\<forall>k' \<in> set rest. f k' \<le> f k")
      case top: True
      then have "find (\<lambda>x. f k < f x \<and> (\<forall>k' \<in> set rest. f k' \<le> f x)) rest = None"
        by (auto simp: find_None_iff)
      with True top show ?thesis
        by (simp add: pickMax_pair Cons.IH)
    next
      case False
      then obtain k' where k': "k' \<in> set rest" "f k < f k'" by auto
      have same: "find (\<lambda>x. mx < f x \<and> (\<forall>k' \<in> set (k # rest). f k' \<le> f x)) rest
            = find (\<lambda>x. f k < f x \<and> (\<forall>k' \<in> set rest. f k' \<le> f x)) rest"
        using True k' by (intro find_cong) (auto intro: less_le_trans)
      from k' have "rest \<noteq> []" by auto
      from ex_greatest [OF this, of f]
      obtain x where x: "x \<in> set rest" "\<forall>y \<in> set rest. f y \<le> f x"
        by blast
      with k' have "f k < f x" by (auto intro: less_le_trans)
      with x have "find (\<lambda>x. f k < f x \<and> (\<forall>k' \<in> set rest. f k' \<le> f x)) rest \<noteq> None"
        by (auto simp: find_None_iff)
      with same show ?thesis
        using True False by (auto simp: pickMax_pair Cons.IH)
    qed
  qed
qed

lemma primaryMood_modeFirst:
  "primaryMood entries = (case modeFirst (map j_mood (take 5 entries)) of None \<Rightarrow> Neutral | Some m \<Rightarrow> m)"
proof -
  define ms where "ms = map j_mood (take 5 entries)"
  have cs: "fold (\<lambda>entry. countMood (fst entry)) (map (\<lambda>entry. (j_mood entry, j_date entry)) (take 5 entries)) []
            = map (\<lambda>k. (k, count_list ms k)) (firstOcc ms)"
    unfolding ms_def moodCounts_eq [symmetric] by (simp add: fold_map comp_def)
  have "find (\<lambda>k. 0 < count_list ms k \<and> (\<forall>k' \<in> set (firstOcc ms). count_list ms k' \<le> count_list ms k)) (firstOcc ms)
        = find (\<lambda>k. \<forall>k' \<in> set ms. count_list ms k' \<le> count_list ms k) (firstOcc ms)"
    by (intro find_cong) (auto simp: set_firstOcc count_list_pos)
  then have pick: "snd (fold pickMax (map (\<lambda>k. (k, count_list ms k)) (firstOcc ms)) (0, Neutral))
                   = (case modeFirst ms of None \<Rightarrow> Neutral | Some m \<Rightarrow> m)"
    by (simp add: pickMax_fold modeFirst_def find_firstOcc split: option.splits)
  show ?thesis
  proof (cases "take 5 entries = []")
    case True
    then show ?thesis by (simp add: primaryMood_def modeFirst_def)
  next
    case False
    then show ?thesis
      unfolding primaryMood_def Let_def cs using pick by (simp add: ms_def)
  qed
qed

lemma recent_window:
  assumes "sorted_wrt (\<lambda>a b. date b \<le> date a) es"
  shows "\<forall>e \<in> set (take n es). \<forall>e' \<in> set (drop n es). date e' \<le> date e"
proof -
  have "sorted_wrt (\<lambda>a b. date b \<le> date a) (take n es @ drop n es)"
    using assms by simp
  then show ?thesis
    unfolding sorted_wrt_append by blast
qed

text \<open>
  Claim C9. The mood that the advice generator takes as dominant for a user is the mode of
  the moods of the first five entries of \<open>getJournalEntriesByUserId\<close>, ties going to the
  mood met first in that order (\<open>modeFirst\<close>), and \<open>Neutral\<close> when the user has no entry.
  Those five are the user's most recent entries: the list holds exactly the user's entries
  and no entry after the fifth is more recent than one of the first five.
\<close>

theorem advice_primaryMood_mode:
  "advicePrimaryMood d userId =
     (case modeFirst (map j_mood (take 5 (getJournalEntriesByUserId d userId))) of
        None \<Rightarrow> Neutral | Some m \<Rightarrow> m)
   \<and> (filter (\<lambda>e. j_userId e = userId) (journalEntries d) = []
        \<longrightarrow> advicePrimaryMood d userId = Neutral)
   \<and> mset (getJournalEntriesByUserId d userId)
       = mset (filter (\<lambda>e. j_userId e = userId) (journalEntries d))
   \<and> (\<forall>e \<in> set (take 5 (getJournalEntriesByUserId d userId)).
        \<forall>e' \<in> set (drop 5 (getJournalEntriesByUserId d userId)). j_date e' \<le> j_date e)"
proof (intro conjI)
  show "advicePrimaryMood d userId =
     (case modeFirst (map j_mood (take 5 (getJournalEntriesByUserId d userId))) of
        None \<Rightarrow> Neutral | Some m \<Rightarrow> m)"
    by (simp add: advicePrimaryMood_def primaryMood_modeFirst)
  show "filter (\<lambda>e. j_userId e = userId) (journalEntries d) = []
        \<longrightarrow> advicePrimaryMood d userId = Neutral"
    by (simp add: advicePrimaryMood_def getJournalEntriesByUserId_def orderByDesc_def primaryMood_def)
  show "mset (getJournalEntriesByUserId d userId)
       = mset (filter (\<lambda>e. j_userId e = userId) (journalEntries d))"
    by (simp add: getJournalEntriesByUserId_def mset_orderByDesc)
  show "\<forall>e \<in> set (take 5 (getJournalEntriesByUserId d userId)).
        \<forall>e' \<in> set (drop 5 (getJournalEntriesByUserId d userId)). j_date e' \<le> j_date e"
    by (rule recent_window) (simp add: getJournalEntriesByUserId_def orderByDesc_sorted)
qed


text \<open>In the journal scenario the five newest moods of user 7 are happy, sad, sad, happy,
  neutral: happy and sad tie at two and happy, met first, wins, although sad is the most
  frequent mood of all seven entries. User 9 has no entry.\<close>

lemma journal_of_7:
  "getJournalEntriesByUserId journal_db 7 =
     [journalNote 8 7 Happy 70, journalNote 7 7 Sad 60, journalNote 6 7 Sad 50,
      journalNote 5 7 Happy 40, journalNote 4 7 Neutral 30, journalNote 2 7 Sad 20,
      journalNote 1 7 Sad 10]"
  by (simp add: getJournalEntriesByUserId_def orderByDesc_def journal_db_def journalNote_def)

theorem advice_primaryMood_mode_witness:
  "map j_mood (take 5 (getJournalEntriesByUserId journal_db 7)) = [Happy, Sad, Sad, Happy, Neutral]
   \<and> modeFirst [Happy, Sad, Sad, Happy, Neutral] = Some Happy
   \<and> advicePrimaryMood journal_db 7 = Happy
   \<and> filter (\<lambda>e. j_userId e = 9) (journalEntries journal_db) = []
   \<and> advicePrimaryMood journal_db 9 = Neutral
   \<and> j_date (journalNote 2 7 Sad 20) \<le> j_date (journalNote 4 7 Neutral 30)"
proof -
  have w: "map j_mood (take 5 (getJournalEntriesByUserId journal_db 7)) = [Happy, Sad, Sad, Happy, Neutral]"
    by (simp add: journal_of_7 journalNote_def)
  have m: "modeFirst [Happy, Sad, Sad, Happy, Neutral] = Some Happy"
    by (simp add: modeFirst_def)
  have none: "filter (\<lambda>e. j_userId e = 9) (journalEntries journal_db) = []"
    by (simp add: journal_db_def journalNote_def)
  from advice_primaryMood_mode [of journal_db 7]
  have p: "advicePrimaryMood journal_db 7 = Happy"
    unfolding w m by simp
  from advice_primaryMood_mode [of journal_db 7]
  have "\<forall>e \<in> set (take 5 (getJournalEntriesByUserId journal_db 7)).
        \<forall>e' \<in> set (drop 5 (getJournalEntriesByUserId journal_db 7)). j_date e' \<le> j_date e"
    by blast
  then have r: "j_date (journalNote 2 7 Sad 20) \<le> j_date (journalNote 4 7 Neutral 30)"
    unfolding journal_of_7 by simp
  from advice_primaryMood_mode [of journal_db 9] none
  have n: "advicePrimaryMood journal_db 9 = Neutral"
    by blast
  from w m p none n r show ?thesis by blast
qed

end
